theory Spec2Isabelle
  imports Complex_Main "HOL-Library.Sublist"
begin

section \<open>JavaScript numbers\<close>

text \<open>
  A JavaScript number is an IEEE 754 binary64 value. A finite one is kept as the rational
  it denotes; the two zeros are one value \<open>Fin 0\<close>: the operations the two classes use
  on numbers (\<open><\<close>, \<open>>\<close>, \<open>!==\<close>, \<open>!!\<close>, template literals, and a division whose
  result is only tested for being an integer) do not tell them apart.
\<close>

datatype jsnum = NaN | PInf | NInf | Fin rat

definition pow2 :: "int \<Rightarrow> rat" where
  "pow2 e = (if 0 \<le> e then 2 ^ nat e else 1 / 2 ^ nat (- e))"

text \<open>The number of binary digits of a natural number.\<close>

fun bits :: "nat \<Rightarrow> nat" where
  "bits n = (if n = 0 then 0 else Suc (bits (n div 2)))"

declare bits.simps [simp del]

text \<open>
  The binary exponent \<open>\<lfloor>log\<^sub>2 x\<rfloor>\<close> of a positive rational: for \<open>1 \<le> x\<close> one less than
  the number of digits of \<open>\<lfloor>x\<rfloor>\<close>; below 1 it is \<open>- k\<close> for the least \<open>k\<close> with
  \<open>1 / x \<le> 2 ^ k\<close>, which is the number of digits of \<open>\<lceil>1 / x\<rceil> - 1\<close>.
\<close>

definition ilog2 :: "rat \<Rightarrow> int" where
  "ilog2 x = (if 1 \<le> x then int (bits (nat \<lfloor>x\<rfloor>)) - 1
              else - int (bits (nat (\<lceil>1 / x\<rceil> - 1))))"

definition round_half_even :: "rat \<Rightarrow> int" where
  "round_half_even x =
     (let f = \<lfloor>x\<rfloor>; d = x - of_int f
      in if d < 1 / 2 then f else if 1 / 2 < d then f + 1
         else if even f then f else f + 1)"

text \<open>
  Rounding of an exact result to binary64, to nearest with ties to even: 53 significant
  bits, the exponent not below that of the subnormal numbers (\<open>- 1022\<close>), and an infinity
  once the rounded magnitude reaches \<open>2 ^ 1024\<close>.
\<close>

definition round_double :: "rat \<Rightarrow> jsnum" where
  "round_double x =
     (if x = 0 then Fin 0
      else let e = max (ilog2 \<bar>x\<bar>) (- 1022);
               q = pow2 (e - 52);
               r = of_int (round_half_even (x / q)) * q
           in if pow2 1024 \<le> \<bar>r\<bar> then (if 0 < x then PInf else NInf) else Fin r)"

text \<open>\<open>a < b\<close> on numbers: false as soon as one side is NaN.\<close>

fun num_lt :: "jsnum \<Rightarrow> jsnum \<Rightarrow> bool" where
  "num_lt (Fin x) (Fin y) = (x < y)"
| "num_lt (Fin x) PInf = True"
| "num_lt NInf (Fin y) = True"
| "num_lt NInf PInf = True"
| "num_lt _ _ = False"

text \<open>\<open>a === b\<close> on numbers: NaN equals nothing, itself included.\<close>

definition num_eq :: "jsnum \<Rightarrow> jsnum \<Rightarrow> bool" where
  "num_eq a b = (a \<noteq> NaN \<and> a = b)"

text \<open>\<open>a / b\<close>: the exact quotient rounded; a finite number over zero is an infinity.\<close>

fun num_div :: "jsnum \<Rightarrow> jsnum \<Rightarrow> jsnum" where
  "num_div (Fin x) (Fin y) =
     (if y = 0 then (if x = 0 then NaN else if 0 < x then PInf else NInf)
      else round_double (x / y))"
| "num_div (Fin x) PInf = Fin 0"
| "num_div (Fin x) NInf = Fin 0"
| "num_div PInf (Fin y) = (if 0 \<le> y then PInf else NInf)"
| "num_div NInf (Fin y) = (if 0 \<le> y then NInf else PInf)"
| "num_div _ _ = NaN"

text \<open>\<open>a - b\<close>: the exact difference rounded; infinities of one sign cancel to NaN.\<close>

fun num_sub :: "jsnum \<Rightarrow> jsnum \<Rightarrow> jsnum" where
  "num_sub (Fin x) (Fin y) = round_double (x - y)"
| "num_sub (Fin x) PInf = NInf"
| "num_sub (Fin x) NInf = PInf"
| "num_sub PInf (Fin y) = PInf"
| "num_sub PInf NInf = PInf"
| "num_sub NInf (Fin y) = NInf"
| "num_sub NInf PInf = NInf"
| "num_sub _ _ = NaN"

text \<open>
  \<open>Math.round\<close>: the nearest integer, a tie going towards \<open>+\<infinity>\<close>; the result is always
  a binary64 value, so nothing is rounded a second time.
\<close>

fun Math_round :: "jsnum \<Rightarrow> jsnum" where
  "Math_round (Fin x) = Fin (of_int \<lfloor>x + 1 / 2\<rfloor>)"
| "Math_round n = n"

section \<open>JavaScript values\<close>

text \<open>
  The values a \<open>Property<T>\<close> can hold. An object (a plain object or an array) is a
  reference, \<open>Obj a s\<close>: \<open>a\<close> is its address, which is what \<open>===\<close> compares, and \<open>s\<close>
  is the string its \<open>toString()\<close> returns, which is what the conversion of the object to
  a primitive yields (\<open>valueOf()\<close> of such an object returns the object itself).
\<close>

datatype jsval = Undefined | Null | Bool bool | Num jsnum | Str string | Obj nat string

text \<open>
  The two conversions between strings and numbers are the engine's (\<open>StringToNumber\<close> and
  \<open>Number::toString\<close> of ECMA-262). They are parameters of the model: every theorem holds
  whatever the two functions are.
\<close>

record ecma =
  StringToNumber :: "string \<Rightarrow> jsnum"
  NumberToString :: "jsnum \<Rightarrow> string"

fun ToBoolean :: "jsval \<Rightarrow> bool" where
  "ToBoolean Undefined = False"
| "ToBoolean Null = False"
| "ToBoolean (Bool b) = b"
| "ToBoolean (Num n) = (n \<noteq> NaN \<and> n \<noteq> Fin 0)"
| "ToBoolean (Str s) = (s \<noteq> [])"
| "ToBoolean (Obj a s) = True"

fun ToNumber :: "ecma \<Rightarrow> jsval \<Rightarrow> jsnum" where
  "ToNumber rt Undefined = NaN"
| "ToNumber rt Null = Fin 0"
| "ToNumber rt (Bool b) = (if b then Fin 1 else Fin 0)"
| "ToNumber rt (Num n) = n"
| "ToNumber rt (Str s) = StringToNumber rt s"
| "ToNumber rt (Obj a s) = StringToNumber rt s"

fun ToString :: "ecma \<Rightarrow> jsval \<Rightarrow> string" where
  "ToString rt Undefined = ''undefined''"
| "ToString rt Null = ''null''"
| "ToString rt (Bool b) = (if b then ''true'' else ''false'')"
| "ToString rt (Num n) = NumberToString rt n"
| "ToString rt (Str s) = s"
| "ToString rt (Obj a s) = s"

text \<open>\<open>x === y\<close>.\<close>

fun strict_eq :: "jsval \<Rightarrow> jsval \<Rightarrow> bool" where
  "strict_eq Undefined Undefined = True"
| "strict_eq Null Null = True"
| "strict_eq (Bool a) (Bool b) = (a = b)"
| "strict_eq (Num a) (Num b) = num_eq a b"
| "strict_eq (Str s) (Str t) = (s = t)"
| "strict_eq (Obj a s) (Obj b t) = (a = b)"
| "strict_eq _ _ = False"

fun is_nullish :: "jsval \<Rightarrow> bool" where
  "is_nullish Undefined = True"
| "is_nullish Null = True"
| "is_nullish _ = False"

fun ToPrimitive :: "jsval \<Rightarrow> jsval" where
  "ToPrimitive (Obj a s) = Str s"
| "ToPrimitive v = v"

text \<open>
  \<open>x == y\<close>: \<open>null\<close> and \<open>undefined\<close> equal each other and nothing else; two objects are
  compared by reference; otherwise an object is converted to a primitive, two strings are
  compared as strings, and any other pair as numbers.
\<close>

definition loose_eq :: "ecma \<Rightarrow> jsval \<Rightarrow> jsval \<Rightarrow> bool" where
  "loose_eq rt x y =
     (if is_nullish x \<or> is_nullish y then is_nullish x \<and> is_nullish y
      else case (x, y) of
        (Obj a s, Obj b t) \<Rightarrow> a = b
      | _ \<Rightarrow> (case (ToPrimitive x, ToPrimitive y) of
          (Str s, Str t) \<Rightarrow> s = t
        | (p, q) \<Rightarrow> num_eq (ToNumber rt p) (ToNumber rt q)))"

section \<open>The data model\<close>

record link =
  rel :: string
  href :: string

text \<open>
  The fields of the class \<open>Property\<close>, without \<open>device\<close>: the device is the
  collaborator the notifications go to, and its state is passed beside the property. An
  optional field that is \<open>undefined\<close> is \<open>None\<close>; \<open>value\<close> and \<open>prevGetValue\<close>
  hold \<open>Undefined\<close> until they are written.
\<close>

record property =
  name :: string
  title :: "string option"
  type :: string
  atType :: "string option"
  unit :: "string option"
  description :: "string option"
  minimum :: "jsnum option"
  maximum :: "jsnum option"
  enum :: "string list option"
  readOnly :: "bool option"
  multipleOf :: "jsnum option"
  links :: "link list"
  visible :: bool
  fireAndForget :: bool
  "value" :: jsval
  prevGetValue :: jsval

text \<open>
  The fields of the class \<open>Action\<close>, without \<open>device\<close>. \<open>timeCompleted\<close> is declared
  \<open>string | undefined\<close> and has no initialiser.
\<close>

record action =
  status :: string
  timeRequested :: string
  timeCompleted :: jsval
  id_a :: string
  name_a :: string
  input :: jsval

text \<open>
  Modelled from the spec: the class \<open>Device\<close> of \<open>./device\<close> is not among the
  sources. The spec gives it as the collaborator that the two classes only call into,
  through \<open>notifyPropertyChanged\<close> and \<open>actionNotify\<close>, and never read. It is known
  here by what it is told: each entry point records the object it is called with, as it
  is at the call.
\<close>

record device =
  propertyChanged :: "property list"
  actionNotified :: "action list"

definition notifyPropertyChanged :: "property \<Rightarrow> device \<Rightarrow> device" where
  "notifyPropertyChanged p dev = dev\<lparr>propertyChanged := propertyChanged dev @ [p]\<rparr>"

definition actionNotify :: "action \<Rightarrow> device \<Rightarrow> device" where
  "actionNotify a dev = dev\<lparr>actionNotified := actionNotified dev @ [a]\<rparr>"

section \<open>Property\<close>

text \<open>
  The constructor's argument, with the three legacy fields the constructor reads from it
  (\<open>min\<close>, \<open>max\<close>, \<open>label\<close>). The argument has the declared type, so the assertion that
  it is an object holds.
\<close>

record propertyDescription =
  title_d :: "string option"
  type_d :: string
  atType_d :: "string option"
  unit_d :: "string option"
  description_d :: "string option"
  minimum_d :: "jsnum option"
  maximum_d :: "jsnum option"
  enum_d :: "string list option"
  readOnly_d :: "bool option"
  multipleOf_d :: "jsnum option"
  links_d :: "link list option"
  visible_d :: "bool option"
  min_d :: "jsnum option"
  max_d :: "jsnum option"
  label_d :: "string option"

text \<open>\<open>a ?? b\<close>, where \<open>b\<close> may be undefined too, and where \<open>b\<close> is a value.\<close>

fun nullish_or :: "'a option \<Rightarrow> 'a option \<Rightarrow> 'a option" where
  "nullish_or (Some a) b = Some a"
| "nullish_or None b = b"

fun nullish_default :: "'a option \<Rightarrow> 'a \<Rightarrow> 'a" where
  "nullish_default (Some a) b = a"
| "nullish_default None b = b"

definition Property :: "string \<Rightarrow> propertyDescription \<Rightarrow> property" where
  "Property name' propertyDescr =
     \<lparr> name = name',
       title = nullish_or (title_d propertyDescr) (label_d propertyDescr),
       type = type_d propertyDescr,
       atType = atType_d propertyDescr,
       unit = unit_d propertyDescr,
       description = description_d propertyDescr,
       minimum = nullish_or (minimum_d propertyDescr) (min_d propertyDescr),
       maximum = nullish_or (maximum_d propertyDescr) (max_d propertyDescr),
       enum = enum_d propertyDescr,
       readOnly = readOnly_d propertyDescr,
       multipleOf = multipleOf_d propertyDescr,
       links = nullish_default (links_d propertyDescr) [],
       visible = nullish_default (visible_d propertyDescr) True,
       fireAndForget = False,
       value = Undefined,
       prevGetValue = Undefined \<rparr>"

text \<open>The description object \<open>{type: t}\<close>.\<close>

definition only_type :: "string \<Rightarrow> propertyDescription" where
  "only_type t =
     \<lparr> title_d = None, type_d = t, atType_d = None, unit_d = None, description_d = None,
       minimum_d = None, maximum_d = None, enum_d = None, readOnly_d = None,
       multipleOf_d = None, links_d = None, visible_d = None,
       min_d = None, max_d = None, label_d = None \<rparr>"

text \<open>
  A value of a field of the object \<open>asPropertyDescription\<close> returns; an object is the
  list of its own properties, in the order they were created.
\<close>

datatype descval =
  DUndefined | DString string | DNumber jsnum | DBoolean bool
  | DStrings "string list" | DLinks "link list"

fun optional :: "('a \<Rightarrow> descval) \<Rightarrow> 'a option \<Rightarrow> descval" where
  "optional f None = DUndefined"
| "optional f (Some x) = f x"

definition asPropertyDescription :: "property \<Rightarrow> (string \<times> descval) list" where
  "asPropertyDescription p =
     [ (''title'', optional DString (title p)),
       (''type'', DString (type p)),
       (''@type'', optional DString (atType p)),
       (''unit'', optional DString (unit p)),
       (''description'', optional DString (description p)),
       (''minimum'', optional DNumber (minimum p)),
       (''maximum'', optional DNumber (maximum p)),
       (''enum'', optional DStrings (enum p)),
       (''readOnly'', optional DBoolean (readOnly p)),
       (''multipleOf'', optional DNumber (multipleOf p)),
       (''links'', DLinks (links p)) ]"

text \<open>\<open>setCachedValue\<close> returns the cached value and the updated property.\<close>

definition setCachedValue :: "jsval \<Rightarrow> property \<Rightarrow> jsval \<times> property" where
  "setCachedValue v p =
     (let p' = (if type p = ''boolean'' then p\<lparr>value := Bool (ToBoolean v)\<rparr>
                else p\<lparr>value := v\<rparr>)
      in (value p', p'))"

definition setCachedValueAndNotify ::
  "jsval \<Rightarrow> property \<times> device \<Rightarrow> bool \<times> property \<times> device" where
  "setCachedValueAndNotify v s =
     (case s of (p, dev) \<Rightarrow>
        let oldValue = value p;
            p' = snd (setCachedValue v p);
            hasChanged = (\<not> strict_eq oldValue (value p'))
        in (hasChanged, p', if hasChanged then notifyPropertyChanged p' dev else dev))"

text \<open>
  A promise that its executor settles before returning is its outcome: \<open>Inl\<close> the
  rejection reason, \<open>Inr\<close> the value it resolves to.
\<close>

definition getValue :: "ecma \<Rightarrow> property \<Rightarrow> (string + jsval) \<times> property" where
  "getValue rt p =
     (let p' = (if \<not> loose_eq rt (value p) (prevGetValue p)
                then p\<lparr>prevGetValue := value p\<rparr> else p)
      in (Inr (value p'), p'))"

text \<open>
  A template literal over a field of type \<open>number | undefined\<close>. In \<open>setValue\<close> the
  cast of the value to \<open>number\<close> converts nothing: the operators \<open><\<close>, \<open>>\<close> and
  \<open>/\<close> convert their operand with \<open>ToNumber\<close>.
\<close>

fun template :: "ecma \<Rightarrow> jsnum option \<Rightarrow> string" where
  "template rt None = ''undefined''"
| "template rt (Some n) = NumberToString rt n"

definition setValue ::
  "ecma \<Rightarrow> jsval \<Rightarrow> property \<times> device \<Rightarrow> (string + jsval) \<times> property \<times> device" where
  "setValue rt v s =
     (case s of (p, dev) \<Rightarrow>
        if readOnly p = Some True then (Inl ''Read-only property'', p, dev)
        else
          let numberValue = v in
          if (case minimum p of None \<Rightarrow> False
              | Some m \<Rightarrow> num_lt (ToNumber rt numberValue) m)
          then (Inl (''Value less than minimum: '' @ template rt (minimum p)), p, dev)
          else if (case maximum p of None \<Rightarrow> False
                   | Some m \<Rightarrow> num_lt m (ToNumber rt numberValue))
          then (Inl (''Value greater than maximum: '' @ template rt (maximum p)), p, dev)
          else if (case multipleOf p of None \<Rightarrow> False
                   | Some k \<Rightarrow>
                       \<not> num_eq (num_sub (num_div (ToNumber rt numberValue) k)
                                          (Math_round (num_div (ToNumber rt numberValue) k)))
                                 (Fin 0))
          then (Inl (''Value is not a multiple of: '' @ template rt (multipleOf p)), p, dev)
          else if (case enum p of None \<Rightarrow> False
                   | Some e \<Rightarrow> 0 < length e \<and> ToString rt v \<notin> set e)
          then (Inl ''Invalid enum value'', p, dev)
          else
            (case setCachedValueAndNotify v (p, dev) of
               (hasChanged, p', dev') \<Rightarrow> (Inr (value p'), p', dev')))"

section \<open>Action\<close>

text \<open>
  Modelled from the spec: \<open>timestamp()\<close> of \<open>./utils\<close> is not among the sources. The
  spec assumes ``an externally provided monotonic wall-clock string generator'': the clock
  is a reading \<open>ticks\<close> that time only increases, and \<open>timestamp\<close> is that reading in
  the generator's format \<open>render\<close>.
\<close>

record clock =
  ticks :: nat
  render :: "nat \<Rightarrow> string"

definition timestamp :: "clock \<Rightarrow> string" where
  "timestamp c = render c (ticks c)"

definition elapse :: "nat \<Rightarrow> clock \<Rightarrow> clock" where
  "elapse d c = c\<lparr>ticks := ticks c + d\<rparr>"

definition Action :: "clock \<Rightarrow> string \<Rightarrow> string \<Rightarrow> jsval \<Rightarrow> action" where
  "Action c id' name' input' =
     \<lparr> status = ''created'',
       timeRequested = timestamp c,
       timeCompleted = Undefined,
       id_a = id',
       name_a = name',
       input = input' \<rparr>"

definition asActionDescription :: "action \<Rightarrow> (string \<times> jsval) list" where
  "asActionDescription a =
     (let description =
            [ (''name'', Str (name_a a)),
              (''timeRequested'', Str (timeRequested a)),
              (''status'', Str (status a)) ];
          description =
            (if \<not> strict_eq (input a) Null
             then description @ [(''input'', input a)] else description);
          description =
            (if \<not> strict_eq (timeCompleted a) Null
             then description @ [(''timeCompleted'', timeCompleted a)] else description)
      in description)"

definition start :: "action \<times> device \<Rightarrow> action \<times> device" where
  "start s =
     (case s of (a, dev) \<Rightarrow>
        let a' = a\<lparr>status := ''pending''\<rparr>
        in (a', actionNotify a' dev))"

definition finish :: "clock \<Rightarrow> action \<times> device \<Rightarrow> action \<times> device" where
  "finish c s =
     (case s of (a, dev) \<Rightarrow>
        let a' = a\<lparr>status := ''completed''\<rparr>;
            a'' = a'\<lparr>timeCompleted := Str (timestamp c)\<rparr>
        in (a'', actionNotify a'' dev))"

section \<open>The rounding is to nearest\<close>

text \<open>
  The exponent brackets its argument between two powers of two, and a finite result of
  the rounding is a multiple of the quantum of that exponent, at most half a quantum
  away from the exact value.
\<close>

lemma bits_bounds: "0 < n \<Longrightarrow> 2 ^ (bits n - 1) \<le> n \<and> n < 2 ^ bits n"
proof (induction n rule: bits.induct)
  case (1 n)
  show ?case
  proof (cases "n div 2 = 0")
    case True
    with 1(2) have "n = 1" by (simp add: div_eq_0_iff)
    then show ?thesis by (subst (1 2) bits.simps, subst (1 2) bits.simps) simp
  next
    case False
    then have pos: "0 < n div 2" by simp
    from 1(1) [OF _ pos] 1(2)
    have ih: "2 ^ (bits (n div 2) - 1) \<le> n div 2" "n div 2 < 2 ^ bits (n div 2)" by auto
    have b: "bits n = Suc (bits (n div 2))" using 1(2) by (subst bits.simps) simp
    have bp: "0 < bits (n div 2)" using pos by (subst bits.simps) simp
    then have "(2::nat) ^ bits (n div 2) = 2 * 2 ^ (bits (n div 2) - 1)"
      by (cases "bits (n div 2)") simp_all
    with ih(1) have "2 ^ bits (n div 2) \<le> 2 * (n div 2)" by simp
    then have lo: "2 ^ bits (n div 2) \<le> n" by arith
    from ih(2) have "n div 2 + 1 \<le> 2 ^ bits (n div 2)" by simp
    then have "2 * (n div 2) + 2 \<le> 2 * 2 ^ bits (n div 2)" by simp
    then have hi: "n < 2 * 2 ^ bits (n div 2)" by arith
    show ?thesis using lo hi by (simp add: b)
  qed
qed

lemma ilog2_bounds:
  assumes "0 < x"
  shows "pow2 (ilog2 x) \<le> x \<and> x < pow2 (ilog2 x + 1)"
proof (cases "1 \<le> x")
  case True
  define n where "n = nat \<lfloor>x\<rfloor>"
  from True have n1: "0 < n" by (simp add: n_def)
  have nx: "of_nat n \<le> x" "x < of_nat n + 1"
    using True by (simp_all add: n_def) linarith+
  from bits_bounds [OF n1] have b: "2 ^ (bits n - 1) \<le> n" "n < 2 ^ bits n" by auto
  have bp: "0 < bits n" using n1 by (subst bits.simps) simp
  have il: "ilog2 x = int (bits n) - 1" using True by (simp add: ilog2_def n_def)
  have p1: "pow2 (ilog2 x) = 2 ^ (bits n - 1)"
    using bp by (simp add: il pow2_def nat_diff_distrib')
  have p2: "pow2 (ilog2 x + 1) = 2 ^ bits n"
    by (simp add: il pow2_def)
  have "(2::rat) ^ (bits n - 1) \<le> of_nat n"
    using b(1) by (metis of_nat_le_iff of_nat_numeral of_nat_power)
  moreover have "(of_nat n :: rat) + 1 \<le> 2 ^ bits n"
  proof -
    from b(2) have "n + 1 \<le> 2 ^ bits n" by simp
    then have "(of_nat (n + 1) :: rat) \<le> of_nat (2 ^ bits n)" by (simp only: of_nat_le_iff)
    then show ?thesis by simp
  qed
  ultimately have "2 ^ (bits n - 1) \<le> x" "x < 2 ^ bits n"
    using nx by (blast intro: order_trans, blast intro: less_le_trans)
  then show ?thesis unfolding p1 p2 by blast
next
  case False
  then have x1: "x < 1" by simp
  define N where "N = \<lceil>1 / x\<rceil>"
  define m where "m = nat (N - 1)"
  have inv: "1 < 1 / x" using assms x1 by simp
  then have N2: "2 \<le> N" unfolding N_def by (simp add: le_ceiling_iff)
  then have m1: "0 < m" by (simp add: m_def)
  have mN: "int m = N - 1" using N2 by (simp add: m_def)
  from bits_bounds [OF m1] have b: "2 ^ (bits m - 1) \<le> m" "m < 2 ^ bits m" by auto
  have bp: "0 < bits m" using m1 by (subst bits.simps) simp
  have il: "ilog2 x = - int (bits m)" using False by (simp add: ilog2_def m_def N_def)
  have up: "1 / x \<le> of_int N" unfolding N_def by (rule le_of_int_ceiling)
  have lowN: "of_int N - 1 < 1 / x" unfolding N_def using ceiling_correct [of "1 / x"] by simp
  have "(of_int N :: rat) \<le> 2 ^ bits m"
  proof -
    from b(2) have "int m + 1 \<le> 2 ^ bits m"
      by (metis of_nat_less_iff of_nat_numeral of_nat_power zless_imp_add1_zle)
    then have "N \<le> 2 ^ bits m" by (simp add: mN)
    then have "(of_int N :: rat) \<le> of_int (2 ^ bits m)" by (simp only: of_int_le_iff)
    then show ?thesis by simp
  qed
  with up have "1 / x \<le> 2 ^ bits m" by (rule order_trans)
  then have lo: "1 / 2 ^ bits m \<le> x"
    using assms by (simp add: field_simps)
  have "(2::rat) ^ (bits m - 1) \<le> of_int N - 1"
  proof -
    from b(1) have "(2::int) ^ (bits m - 1) \<le> int m"
      by (metis of_nat_le_iff of_nat_numeral of_nat_power)
    then have "(2::int) ^ (bits m - 1) \<le> N - 1" by (simp add: mN)
    then have "(of_int (2 ^ (bits m - 1)) :: rat) \<le> of_int (N - 1)" by (simp only: of_int_le_iff)
    then show ?thesis by simp
  qed
  from this lowN have "2 ^ (bits m - 1) < 1 / x" by (rule le_less_trans)
  then have hi: "x < 1 / 2 ^ (bits m - 1)"
    using assms by (simp add: field_simps)
  have p1: "pow2 (ilog2 x) = 1 / 2 ^ bits m"
    using bp by (simp add: il pow2_def)
  have p2: "pow2 (ilog2 x + 1) = 1 / 2 ^ (bits m - 1)"
  proof (cases "bits m = 1")
    case True then show ?thesis by (simp add: il pow2_def)
  next
    case False
    with bp have "\<not> 0 \<le> 1 - int (bits m)" by simp
    moreover have "nat (int (bits m) - 1) = bits m - 1" by simp
    ultimately show ?thesis by (simp add: il pow2_def)
  qed
  show ?thesis unfolding p1 p2 using lo hi by blast
qed

lemma round_half_even_nearest: "\<bar>of_int (round_half_even x) - x\<bar> \<le> 1 / 2"
proof -
  show ?thesis
    by (auto simp add: round_half_even_def Let_def abs_if not_less; linarith)
qed

lemma pow2_pos: "0 < pow2 e"
  by (simp add: pow2_def)

lemma round_double_nearest:
  assumes "round_double x = Fin r" and "x \<noteq> 0"
  shows "r = of_int (round_half_even (x / pow2 (max (ilog2 \<bar>x\<bar>) (- 1022) - 52)))
               * pow2 (max (ilog2 \<bar>x\<bar>) (- 1022) - 52)
         \<and> \<bar>r - x\<bar> \<le> pow2 (max (ilog2 \<bar>x\<bar>) (- 1022) - 52) / 2"
proof -
  define q where "q = pow2 (max (ilog2 \<bar>x\<bar>) (- 1022) - 52)"
  have q: "0 < q" by (simp add: q_def pow2_pos)
  from assms have r: "r = of_int (round_half_even (x / q)) * q"
    by (simp add: round_double_def Let_def q_def split: if_splits)
  have "r - x = (of_int (round_half_even (x / q)) - x / q) * q"
    using q by (simp add: r field_simps)
  then have "\<bar>r - x\<bar> = \<bar>of_int (round_half_even (x / q)) - x / q\<bar> * q"
    using q by (simp add: abs_mult)
  also have "\<dots> \<le> (1 / 2) * q"
    using round_half_even_nearest [of "x / q"] q by (intro mult_right_mono) simp_all
  finally have "\<bar>r - x\<bar> \<le> q / 2" by simp
  with r show ?thesis unfolding q_def by blast
qed

section \<open>Evaluation of the number model\<close>

lemma bits_0: "bits 0 = 0"
  by (subst bits.simps) simp

lemma bits_1: "bits 1 = 1" "bits (Suc 0) = 1"
  by (subst bits.simps, simp add: bits_0)+

lemma bits_numeral: "bits (numeral k) = Suc (bits (numeral k div 2))"
  by (subst bits.simps) simp

lemma floor_rat_numeral_div:
  "\<lfloor>numeral a / numeral b :: rat\<rfloor> = numeral a div numeral b"
  "\<lfloor>- (numeral a / numeral b) :: rat\<rfloor> = - numeral a div numeral b"
  "\<lfloor>1 / numeral b :: rat\<rfloor> = 1 div numeral b"
  "\<lfloor>- (1 / numeral b) :: rat\<rfloor> = - 1 div numeral b"
  using floor_divide_of_int_eq [of "numeral a" "numeral b", where ?'a = rat]
        floor_divide_of_int_eq [of "- numeral a" "numeral b", where ?'a = rat]
        floor_divide_of_int_eq [of 1 "numeral b", where ?'a = rat]
        floor_divide_of_int_eq [of "- 1" "numeral b", where ?'a = rat]
  by simp_all

lemmas dbl_eval = round_double_def ilog2_def ceiling_def bits_0 bits_1 bits_numeral
  round_half_even_def pow2_def Let_def floor_rat_numeral_div

text \<open>The literals \<open>0.1\<close> and \<open>0.3\<close>, and the quotient \<open>0.3 / 0.1\<close>, as binary64 values.\<close>

lemma double_tenth:
  "round_double (1 / 10) = Fin (3602879701896397 / 36028797018963968)"
  by (simp add: dbl_eval)

lemma double_three_tenths:
  "round_double (3 / 10) = Fin (5404319552844595 / 18014398509481984)"
  by (simp add: dbl_eval)

lemma three_tenths_by_tenth:
  "num_div (round_double (3 / 10)) (round_double (1 / 10))
     = Fin (6755399441055743 / 2251799813685248)"
  unfolding double_tenth double_three_tenths
  by (simp add: dbl_eval)

lemma three_tenths_not_multiple:
  "\<not> num_eq (num_sub (num_div (round_double (3 / 10)) (round_double (1 / 10)))
                      (Math_round (num_div (round_double (3 / 10)) (round_double (1 / 10)))))
              (Fin 0)"
  unfolding three_tenths_by_tenth
  by (simp add: dbl_eval num_eq_def)

section \<open>The multipleOf check\<close>

text \<open>
  C1. With \<open>multipleOf = 0.1\<close>, \<open>setValue(0.3)\<close> on a number property with no other
  constraint is rejected as not a multiple: the quotient \<open>0.3 / 0.1\<close> is the binary64
  value just below 3, \<open>Math.round\<close> of it is 3, and the check asks for a difference
  that is exactly zero. The cache and the device are as before.
\<close>

theorem setValue_tenth_rejects_three_tenths:
  "setValue rt (Num (round_double (3 / 10)))
     (Property ''level'' ((only_type ''number'')\<lparr>multipleOf_d := Some (round_double (1 / 10))\<rparr>), dev)
   = (Inl (''Value is not a multiple of: '' @ NumberToString rt (round_double (1 / 10))),
      Property ''level'' ((only_type ''number'')\<lparr>multipleOf_d := Some (round_double (1 / 10))\<rparr>), dev)"
  using three_tenths_not_multiple
  by (simp add: setValue_def Property_def only_type_def Let_def)

section \<open>Writing a value\<close>

lemma setValue_rejects_unchanged:
  "fst (setValue rt v (p, dev)) = Inl e \<Longrightarrow> snd (setValue rt v (p, dev)) = (p, dev)"
  by (auto simp: setValue_def Let_def split: if_splits prod.splits)

lemma setValue_reasons:
  "fst (setValue rt v (p, dev)) = Inl e \<Longrightarrow>
     e = ''Read-only property'' \<and> readOnly p = Some True
     \<or> (\<exists>m. e = ''Value less than minimum: '' @ NumberToString rt m \<and> minimum p = Some m
            \<and> num_lt (ToNumber rt v) m)
     \<or> (\<exists>m. e = ''Value greater than maximum: '' @ NumberToString rt m \<and> maximum p = Some m
            \<and> num_lt m (ToNumber rt v))
     \<or> (\<exists>k. e = ''Value is not a multiple of: '' @ NumberToString rt k \<and> multipleOf p = Some k
            \<and> \<not> num_eq (num_sub (num_div (ToNumber rt v) k)
                               (Math_round (num_div (ToNumber rt v) k))) (Fin 0))
     \<or> (\<exists>en. e = ''Invalid enum value'' \<and> enum p = Some en \<and> en \<noteq> []
            \<and> ToString rt v \<notin> set en)"
  by (auto simp: setValue_def Let_def split: if_splits prod.splits option.splits)

lemma setValue_resolves:
  "fst (setValue rt v (p, dev)) = Inr r \<Longrightarrow>
     setValue rt v (p, dev) =
       (Inr (fst (setCachedValue v p)), snd (setCachedValue v p),
        if strict_eq (value p) (fst (setCachedValue v p)) then dev
        else notifyPropertyChanged (snd (setCachedValue v p)) dev)"
  by (auto simp: setValue_def setCachedValueAndNotify_def setCachedValue_def Let_def
      split: if_splits prod.splits)

text \<open>
  C2. A \<open>setValue\<close> that passes every check notifies the device exactly once when the
  cached value after coercion differs (\<open>!==\<close>) from the one before, and not at all when
  it is the same; the promise resolves to the cached value. On a fresh boolean property,
  \<open>setValue(1)\<close> followed by \<open>setValue(true)\<close> notifies once in total.
\<close>

theorem setValue_notifies_once_per_change:
  "(\<forall>r p' dev'. setValue rt v (p, dev) = (Inr r, p', dev') \<longrightarrow>
      value p' = fst (setCachedValue v p) \<and> r = value p' \<and>
      actionNotified dev' = actionNotified dev \<and>
      propertyChanged dev' =
        (if strict_eq (value p) (value p') then propertyChanged dev
         else propertyChanged dev @ [p']))
   \<and> (let s0 = (Property ''on'' (only_type ''boolean''), dev);
           s1 = snd (setValue rt (Num (Fin 1)) s0);
           s2 = snd (setValue rt (Bool True) s1)
       in fst (setValue rt (Num (Fin 1)) s0) = Inr (Bool True) \<and>
          fst (setValue rt (Bool True) s1) = Inr (Bool True) \<and>
          propertyChanged (snd s2) = propertyChanged dev @ [fst s1])"
proof (intro conjI allI impI)
  fix r p' dev'
  assume a: "setValue rt v (p, dev) = (Inr r, p', dev')"
  then have "fst (setValue rt v (p, dev)) = Inr r" by simp
  from setValue_resolves [OF this] a
  show "value p' = fst (setCachedValue v p)" "r = value p'"
    "actionNotified dev' = actionNotified dev"
    "propertyChanged dev' =
        (if strict_eq (value p) (value p') then propertyChanged dev
         else propertyChanged dev @ [p'])"
    by (auto simp: setCachedValue_def notifyPropertyChanged_def Let_def split: if_splits)
next
  show "let s0 = (Property ''on'' (only_type ''boolean''), dev);
           s1 = snd (setValue rt (Num (Fin 1)) s0);
           s2 = snd (setValue rt (Bool True) s1)
       in fst (setValue rt (Num (Fin 1)) s0) = Inr (Bool True) \<and>
          fst (setValue rt (Bool True) s1) = Inr (Bool True) \<and>
          propertyChanged (snd s2) = propertyChanged dev @ [fst s1]"
    by (simp add: setValue_def setCachedValueAndNotify_def setCachedValue_def Let_def
        Property_def only_type_def notifyPropertyChanged_def num_eq_def)
qed

theorem setValue_notifies_once_per_change_witness:
  "\<forall>rt. setValue rt (Str ''on'')
          (Property ''mode'' (only_type ''string''), \<lparr>propertyChanged = [], actionNotified = []\<rparr>)
        = (Inr (Str ''on''), (Property ''mode'' (only_type ''string''))\<lparr>value := Str ''on''\<rparr>,
           \<lparr>propertyChanged = [(Property ''mode'' (only_type ''string''))\<lparr>value := Str ''on''\<rparr>],
            actionNotified = []\<rparr>)
      \<and> propertyChanged (snd (snd (setValue rt (Str ''on'')
            (Property ''mode'' (only_type ''string''), \<lparr>propertyChanged = [], actionNotified = []\<rparr>))))
        = [] @ [fst (snd (setValue rt (Str ''on'')
            (Property ''mode'' (only_type ''string''), \<lparr>propertyChanged = [], actionNotified = []\<rparr>)))]"
proof (intro allI)
  fix rt
  have h: "setValue rt (Str ''on'') (Property ''mode'' (only_type ''string''), \<lparr>propertyChanged = [], actionNotified = []\<rparr>)
        = (Inr (Str ''on''), (Property ''mode'' (only_type ''string''))\<lparr>value := Str ''on''\<rparr>,
           \<lparr>propertyChanged = [(Property ''mode'' (only_type ''string''))\<lparr>value := Str ''on''\<rparr>],
            actionNotified = []\<rparr>)"
    by (simp add: setValue_def setCachedValueAndNotify_def setCachedValue_def Let_def
        Property_def only_type_def notifyPropertyChanged_def)
  from setValue_notifies_once_per_change
      [where rt = rt and v = "Str ''on''" and p = "Property ''mode'' (only_type ''string'')"
         and dev = "\<lparr>propertyChanged = [], actionNotified = []\<rparr>", THEN conjunct1, rule_format, OF h]
  have "propertyChanged \<lparr>propertyChanged = [(Property ''mode'' (only_type ''string''))\<lparr>value := Str ''on''\<rparr>],
            actionNotified = []\<rparr>
        = [] @ [(Property ''mode'' (only_type ''string''))\<lparr>value := Str ''on''\<rparr>]"
    by (simp add: Property_def only_type_def)
  with h show "setValue rt (Str ''on'')
          (Property ''mode'' (only_type ''string''), \<lparr>propertyChanged = [], actionNotified = []\<rparr>)
        = (Inr (Str ''on''), (Property ''mode'' (only_type ''string''))\<lparr>value := Str ''on''\<rparr>,
           \<lparr>propertyChanged = [(Property ''mode'' (only_type ''string''))\<lparr>value := Str ''on''\<rparr>],
            actionNotified = []\<rparr>)
      \<and> propertyChanged (snd (snd (setValue rt (Str ''on'')
            (Property ''mode'' (only_type ''string''), \<lparr>propertyChanged = [], actionNotified = []\<rparr>))))
        = [] @ [fst (snd (setValue rt (Str ''on'')
            (Property ''mode'' (only_type ''string''), \<lparr>propertyChanged = [], actionNotified = []\<rparr>)))]"
    by simp
qed

text \<open>
  C3. A \<open>setValue\<close> that rejects leaves the property (its cached value with it) and the
  device exactly as they were, and its reason is one of the five; a property whose
  \<open>readOnly\<close> is true rejects every call, whatever the value.
\<close>

theorem setValue_rejection_keeps_state:
  "(\<forall>e. fst (setValue rt v (p, dev)) = Inl e \<longrightarrow>
      snd (setValue rt v (p, dev)) = (p, dev) \<and>
      (e = ''Read-only property''
       \<or> e = ''Value less than minimum: '' @ template rt (minimum p)
       \<or> e = ''Value greater than maximum: '' @ template rt (maximum p)
       \<or> e = ''Value is not a multiple of: '' @ template rt (multipleOf p)
       \<or> e = ''Invalid enum value''))
   \<and> (readOnly p = Some True \<longrightarrow>
        setValue rt v (p, dev) = (Inl ''Read-only property'', p, dev))"
proof (intro conjI allI impI)
  fix e assume a: "fst (setValue rt v (p, dev)) = Inl e"
  show "snd (setValue rt v (p, dev)) = (p, dev)"
    by (rule setValue_rejects_unchanged [OF a])
  from setValue_reasons [OF a]
  show "e = ''Read-only property''
       \<or> e = ''Value less than minimum: '' @ template rt (minimum p)
       \<or> e = ''Value greater than maximum: '' @ template rt (maximum p)
       \<or> e = ''Value is not a multiple of: '' @ template rt (multipleOf p)
       \<or> e = ''Invalid enum value''"
    by (elim disjE exE conjE) (simp_all del: append.simps)
next
  assume "readOnly p = Some True"
  then show "setValue rt v (p, dev) = (Inl ''Read-only property'', p, dev)"
    by (simp add: setValue_def)
qed

theorem setValue_rejection_keeps_state_witness:
  "\<forall>rt. setValue rt (Num (Fin 5))
          (Property ''level'' ((only_type ''number'')\<lparr>readOnly_d := Some True\<rparr>), \<lparr>propertyChanged = [], actionNotified = []\<rparr>)
        = (Inl ''Read-only property'',
           Property ''level'' ((only_type ''number'')\<lparr>readOnly_d := Some True\<rparr>), \<lparr>propertyChanged = [], actionNotified = []\<rparr>)
      \<and> fst (setValue rt (Num (Fin (- 3)))
          (Property ''level'' ((only_type ''number'')\<lparr>minimum_d := Some (Fin 0)\<rparr>), \<lparr>propertyChanged = [], actionNotified = []\<rparr>))
        = Inl (''Value less than minimum: '' @ NumberToString rt (Fin 0))
      \<and> snd (setValue rt (Num (Fin (- 3)))
          (Property ''level'' ((only_type ''number'')\<lparr>minimum_d := Some (Fin 0)\<rparr>), \<lparr>propertyChanged = [], actionNotified = []\<rparr>))
        = (Property ''level'' ((only_type ''number'')\<lparr>minimum_d := Some (Fin 0)\<rparr>), \<lparr>propertyChanged = [], actionNotified = []\<rparr>)"
proof (intro allI conjI)
  fix rt
  show "setValue rt (Num (Fin 5))
          (Property ''level'' ((only_type ''number'')\<lparr>readOnly_d := Some True\<rparr>), \<lparr>propertyChanged = [], actionNotified = []\<rparr>)
        = (Inl ''Read-only property'',
           Property ''level'' ((only_type ''number'')\<lparr>readOnly_d := Some True\<rparr>), \<lparr>propertyChanged = [], actionNotified = []\<rparr>)"
    using setValue_rejection_keeps_state
      [where rt = rt and v = "Num (Fin 5)"
         and p = "Property ''level'' ((only_type ''number'')\<lparr>readOnly_d := Some True\<rparr>)"
         and dev = "\<lparr>propertyChanged = [], actionNotified = []\<rparr>"]
    by (simp add: Property_def only_type_def)
  show h: "fst (setValue rt (Num (Fin (- 3)))
          (Property ''level'' ((only_type ''number'')\<lparr>minimum_d := Some (Fin 0)\<rparr>), \<lparr>propertyChanged = [], actionNotified = []\<rparr>))
        = Inl (''Value less than minimum: '' @ NumberToString rt (Fin 0))"
    by (simp add: setValue_def Property_def only_type_def)
  show "snd (setValue rt (Num (Fin (- 3)))
          (Property ''level'' ((only_type ''number'')\<lparr>minimum_d := Some (Fin 0)\<rparr>), \<lparr>propertyChanged = [], actionNotified = []\<rparr>))
        = (Property ''level'' ((only_type ''number'')\<lparr>minimum_d := Some (Fin 0)\<rparr>), \<lparr>propertyChanged = [], actionNotified = []\<rparr>)"
    using setValue_rejection_keeps_state
      [where rt = rt and v = "Num (Fin (- 3))"
         and p = "Property ''level'' ((only_type ''number'')\<lparr>minimum_d := Some (Fin 0)\<rparr>)"
         and dev = "\<lparr>propertyChanged = [], actionNotified = []\<rparr>", THEN conjunct1, rule_format, OF h]
    by simp
qed

text \<open>
  C6. On a property whose type is \<open>'boolean'\<close>, every write to the cache
  (\<open>setCachedValue\<close>, \<open>setCachedValueAndNotify\<close>, a \<open>setValue\<close> that resolves) leaves
  the strict boolean \<open>!!value\<close> there, whatever the value written was, and a \<open>getValue\<close>
  after it resolves to that boolean.
\<close>

theorem boolean_cache_is_strict:
  assumes "type p = ''boolean''"
  shows "value (snd (setCachedValue v p)) = Bool (ToBoolean v)
     \<and> fst (getValue rt (snd (setCachedValue v p))) = Inr (Bool (ToBoolean v))
     \<and> value (fst (snd (setCachedValueAndNotify v (p, dev)))) = Bool (ToBoolean v)
     \<and> fst (getValue rt (fst (snd (setCachedValueAndNotify v (p, dev)))))
         = Inr (Bool (ToBoolean v))
     \<and> (\<forall>r p' dev'. setValue rt v (p, dev) = (Inr r, p', dev') \<longrightarrow>
           r = Bool (ToBoolean v) \<and> value p' = Bool (ToBoolean v) \<and>
           fst (getValue rt p') = Inr (Bool (ToBoolean v)))"
proof (intro conjI allI impI)
  show "value (snd (setCachedValue v p)) = Bool (ToBoolean v)"
    using assms by (simp add: setCachedValue_def)
  show "fst (getValue rt (snd (setCachedValue v p))) = Inr (Bool (ToBoolean v))"
    using assms by (simp add: setCachedValue_def getValue_def)
  show "value (fst (snd (setCachedValueAndNotify v (p, dev)))) = Bool (ToBoolean v)"
    using assms by (simp add: setCachedValueAndNotify_def setCachedValue_def Let_def)
  show "fst (getValue rt (fst (snd (setCachedValueAndNotify v (p, dev)))))
         = Inr (Bool (ToBoolean v))"
    using assms
    by (simp add: setCachedValueAndNotify_def setCachedValue_def getValue_def Let_def)
next
  fix r p' dev'
  assume a: "setValue rt v (p, dev) = (Inr r, p', dev')"
  then have "fst (setValue rt v (p, dev)) = Inr r" by simp
  from setValue_resolves [OF this] a assms
  have *: "r = Bool (ToBoolean v)" "value p' = Bool (ToBoolean v)"
    by (auto simp: setCachedValue_def)
  show "r = Bool (ToBoolean v)" "value p' = Bool (ToBoolean v)" by (rule *)+
  show "fst (getValue rt p') = Inr (Bool (ToBoolean v))"
    using * by (simp add: getValue_def)
qed

theorem boolean_cache_is_strict_witness:
  "\<forall>rt. type (Property ''on'' (only_type ''boolean'')) = ''boolean''
      \<and> value (snd (setCachedValue (Num (Fin 0)) (Property ''on'' (only_type ''boolean''))))
          = Bool False
      \<and> value (snd (setCachedValue (Str []) (Property ''on'' (only_type ''boolean''))))
          = Bool False
      \<and> value (snd (setCachedValue (Num (Fin 1)) (Property ''on'' (only_type ''boolean''))))
          = Bool True
      \<and> value (snd (setCachedValue (Str ''x'') (Property ''on'' (only_type ''boolean''))))
          = Bool True
      \<and> value (snd (setCachedValue (Obj 7 ''[object Object]'')
                      (Property ''on'' (only_type ''boolean'')))) = Bool True
      \<and> fst (getValue rt (snd (setCachedValue (Str ''x'')
                      (Property ''on'' (only_type ''boolean''))))) = Inr (Bool True)"
proof (intro allI)
  fix rt
  have t: "type (Property ''on'' (only_type ''boolean'')) = ''boolean''"
    by (simp add: Property_def only_type_def)
  note b = boolean_cache_is_strict [OF t, where rt = rt and dev = "\<lparr>propertyChanged = [], actionNotified = []\<rparr>"]
  show "type (Property ''on'' (only_type ''boolean'')) = ''boolean''
      \<and> value (snd (setCachedValue (Num (Fin 0)) (Property ''on'' (only_type ''boolean''))))
          = Bool False
      \<and> value (snd (setCachedValue (Str []) (Property ''on'' (only_type ''boolean''))))
          = Bool False
      \<and> value (snd (setCachedValue (Num (Fin 1)) (Property ''on'' (only_type ''boolean''))))
          = Bool True
      \<and> value (snd (setCachedValue (Str ''x'') (Property ''on'' (only_type ''boolean''))))
          = Bool True
      \<and> value (snd (setCachedValue (Obj 7 ''[object Object]'')
                      (Property ''on'' (only_type ''boolean'')))) = Bool True
      \<and> fst (getValue rt (snd (setCachedValue (Str ''x'')
                      (Property ''on'' (only_type ''boolean''))))) = Inr (Bool True)"
    using t b [where v = "Num (Fin 0)"] b [where v = "Str []"] b [where v = "Num (Fin 1)"]
      b [where v = "Str ''x''"] b [where v = "Obj 7 ''[object Object]''"]
    by simp
qed

section \<open>The order of the checks\<close>

lemma three_halves_not_multiple:
  "\<not> num_eq (num_sub (num_div (Fin 3) (Fin 2)) (Math_round (num_div (Fin 3) (Fin 2)))) (Fin 0)"
  by (simp add: dbl_eval num_eq_def)

text \<open>
  C7. \<open>setValue\<close> checks read-only, minimum, maximum, multipleOf and enum in this order
  and rejects with the reason of the first check that fails, whatever the constraints
  checked after it are. The enum check rejects only when a non-empty enum is defined and
  the string rendering of the value is not among its members; the outcome is the same for
  two enums with the same members in another order.
\<close>

theorem setValue_check_order:
  "(readOnly p = Some True \<longrightarrow>
      fst (setValue rt v (p\<lparr>minimum := mn, maximum := mx, multipleOf := k, enum := en\<rparr>, dev))
        = Inl ''Read-only property'')
   \<and> (readOnly p \<noteq> Some True \<and> minimum p = Some m \<and> num_lt (ToNumber rt v) m \<longrightarrow>
      fst (setValue rt v (p\<lparr>maximum := mx, multipleOf := k, enum := en\<rparr>, dev))
        = Inl (''Value less than minimum: '' @ NumberToString rt m))
   \<and> (readOnly p \<noteq> Some True
       \<and> (case minimum p of None \<Rightarrow> True | Some a \<Rightarrow> \<not> num_lt (ToNumber rt v) a)
       \<and> maximum p = Some m \<and> num_lt m (ToNumber rt v) \<longrightarrow>
      fst (setValue rt v (p\<lparr>multipleOf := k, enum := en\<rparr>, dev))
        = Inl (''Value greater than maximum: '' @ NumberToString rt m))
   \<and> (readOnly p \<noteq> Some True
       \<and> (case minimum p of None \<Rightarrow> True | Some a \<Rightarrow> \<not> num_lt (ToNumber rt v) a)
       \<and> (case maximum p of None \<Rightarrow> True | Some b \<Rightarrow> \<not> num_lt b (ToNumber rt v))
       \<and> multipleOf p = Some m
       \<and> \<not> num_eq (num_sub (num_div (ToNumber rt v) m)
                           (Math_round (num_div (ToNumber rt v) m))) (Fin 0) \<longrightarrow>
      fst (setValue rt v (p\<lparr>enum := en\<rparr>, dev))
        = Inl (''Value is not a multiple of: '' @ NumberToString rt m))
   \<and> (readOnly p \<noteq> Some True
       \<and> (case minimum p of None \<Rightarrow> True | Some a \<Rightarrow> \<not> num_lt (ToNumber rt v) a)
       \<and> (case maximum p of None \<Rightarrow> True | Some b \<Rightarrow> \<not> num_lt b (ToNumber rt v))
       \<and> (case multipleOf p of None \<Rightarrow> True
           | Some c \<Rightarrow> num_eq (num_sub (num_div (ToNumber rt v) c)
                                       (Math_round (num_div (ToNumber rt v) c))) (Fin 0)) \<longrightarrow>
      fst (setValue rt v (p, dev))
        = (if (case enum p of None \<Rightarrow> False | Some e \<Rightarrow> e \<noteq> [] \<and> ToString rt v \<notin> set e)
           then Inl ''Invalid enum value'' else Inr (fst (setCachedValue v p))))
   \<and> (set e1 = set e2 \<longrightarrow>
      fst (setValue rt v (p\<lparr>enum := Some e1\<rparr>, dev))
        = fst (setValue rt v (p\<lparr>enum := Some e2\<rparr>, dev)))"
proof (intro conjI impI)
  assume "readOnly p = Some True"
  then show "fst (setValue rt v (p\<lparr>minimum := mn, maximum := mx, multipleOf := k, enum := en\<rparr>, dev))
        = Inl ''Read-only property''"
    by (simp add: setValue_def)
next
  assume "readOnly p \<noteq> Some True \<and> minimum p = Some m \<and> num_lt (ToNumber rt v) m"
  then show "fst (setValue rt v (p\<lparr>maximum := mx, multipleOf := k, enum := en\<rparr>, dev))
        = Inl (''Value less than minimum: '' @ NumberToString rt m)"
    by (simp add: setValue_def Let_def del: append.simps)
next
  assume "readOnly p \<noteq> Some True
       \<and> (case minimum p of None \<Rightarrow> True | Some a \<Rightarrow> \<not> num_lt (ToNumber rt v) a)
       \<and> maximum p = Some m \<and> num_lt m (ToNumber rt v)"
  then show "fst (setValue rt v (p\<lparr>multipleOf := k, enum := en\<rparr>, dev))
        = Inl (''Value greater than maximum: '' @ NumberToString rt m)"
    by (simp add: setValue_def Let_def del: append.simps split: option.splits)
next
  assume "readOnly p \<noteq> Some True
       \<and> (case minimum p of None \<Rightarrow> True | Some a \<Rightarrow> \<not> num_lt (ToNumber rt v) a)
       \<and> (case maximum p of None \<Rightarrow> True | Some b \<Rightarrow> \<not> num_lt b (ToNumber rt v))
       \<and> multipleOf p = Some m
       \<and> \<not> num_eq (num_sub (num_div (ToNumber rt v) m)
                           (Math_round (num_div (ToNumber rt v) m))) (Fin 0)"
  then show "fst (setValue rt v (p\<lparr>enum := en\<rparr>, dev))
        = Inl (''Value is not a multiple of: '' @ NumberToString rt m)"
    by (simp add: setValue_def Let_def del: append.simps split: option.splits)
next
  assume "readOnly p \<noteq> Some True
       \<and> (case minimum p of None \<Rightarrow> True | Some a \<Rightarrow> \<not> num_lt (ToNumber rt v) a)
       \<and> (case maximum p of None \<Rightarrow> True | Some b \<Rightarrow> \<not> num_lt b (ToNumber rt v))
       \<and> (case multipleOf p of None \<Rightarrow> True
           | Some c \<Rightarrow> num_eq (num_sub (num_div (ToNumber rt v) c)
                                       (Math_round (num_div (ToNumber rt v) c))) (Fin 0))"
  then show "fst (setValue rt v (p, dev))
        = (if (case enum p of None \<Rightarrow> False | Some e \<Rightarrow> e \<noteq> [] \<and> ToString rt v \<notin> set e)
           then Inl ''Invalid enum value'' else Inr (fst (setCachedValue v p)))"
    by (simp add: setValue_def setCachedValueAndNotify_def setCachedValue_def Let_def
        split: option.splits)
next
  assume "set e1 = set e2"
  moreover from this have "(e1 = []) = (e2 = [])" by auto
  ultimately show "fst (setValue rt v (p\<lparr>enum := Some e1\<rparr>, dev))
        = fst (setValue rt v (p\<lparr>enum := Some e2\<rparr>, dev))"
    by (simp add: setValue_def setCachedValueAndNotify_def setCachedValue_def Let_def
        del: append.simps)
qed

theorem setValue_check_order_witness:
  "\<forall>rt.
     fst (setValue rt (Num (Fin 3))
            (Property ''level'' ((only_type ''integer'')
               \<lparr>minimum_d := Some (Fin 0), maximum_d := Some (Fin 10),
                enum_d := Some [''2'', ''4''], readOnly_d := Some True,
                multipleOf_d := Some (Fin 2)\<rparr>),
             \<lparr>propertyChanged = [], actionNotified = []\<rparr>))
       = Inl ''Read-only property''
   \<and> fst (setValue rt (Num (Fin (- 3)))
            (Property ''level'' ((only_type ''integer'')
               \<lparr>minimum_d := Some (Fin 0), maximum_d := Some (Fin 10),
                enum_d := Some [''2'', ''4''], multipleOf_d := Some (Fin 2)\<rparr>),
             \<lparr>propertyChanged = [], actionNotified = []\<rparr>))
       = Inl (''Value less than minimum: '' @ NumberToString rt (Fin 0))
   \<and> fst (setValue rt (Num (Fin 15))
            (Property ''level'' ((only_type ''integer'')
               \<lparr>minimum_d := Some (Fin 0), maximum_d := Some (Fin 10),
                enum_d := Some [''2'', ''4''], multipleOf_d := Some (Fin 2)\<rparr>),
             \<lparr>propertyChanged = [], actionNotified = []\<rparr>))
       = Inl (''Value greater than maximum: '' @ NumberToString rt (Fin 10))
   \<and> fst (setValue rt (Num (Fin 3))
            (Property ''level'' ((only_type ''integer'')
               \<lparr>minimum_d := Some (Fin 0), maximum_d := Some (Fin 10),
                enum_d := Some [''2'', ''4''], multipleOf_d := Some (Fin 2)\<rparr>),
             \<lparr>propertyChanged = [], actionNotified = []\<rparr>))
       = Inl (''Value is not a multiple of: '' @ NumberToString rt (Fin 2))
   \<and> fst (setValue rt (Str ''purple'')
            (Property ''colour'' ((only_type ''string'')\<lparr>enum_d := Some [''red'', ''green'']\<rparr>),
             \<lparr>propertyChanged = [], actionNotified = []\<rparr>))
       = Inl ''Invalid enum value''
   \<and> fst (setValue rt (Str ''green'')
            (Property ''colour'' ((only_type ''string'')\<lparr>enum_d := Some [''red'', ''green'']\<rparr>),
             \<lparr>propertyChanged = [], actionNotified = []\<rparr>))
       = Inr (Str ''green'')
   \<and> fst (setValue rt (Str ''green'')
            (Property ''colour'' ((only_type ''string'')\<lparr>enum_d := Some []\<rparr>),
             \<lparr>propertyChanged = [], actionNotified = []\<rparr>))
       = Inr (Str ''green'')
   \<and> fst (setValue rt (Str ''green'')
            ((Property ''colour'' (only_type ''string''))\<lparr>enum := Some [''red'', ''green'']\<rparr>,
             \<lparr>propertyChanged = [], actionNotified = []\<rparr>))
       = fst (setValue rt (Str ''green'')
            ((Property ''colour'' (only_type ''string''))\<lparr>enum := Some [''green'', ''red'']\<rparr>,
             \<lparr>propertyChanged = [], actionNotified = []\<rparr>))"
proof (intro allI conjI)
  fix rt
  let ?dev = "\<lparr>propertyChanged = [], actionNotified = []\<rparr>"
  let ?lvl = "Property ''level'' ((only_type ''integer'')
               \<lparr>minimum_d := Some (Fin 0), maximum_d := Some (Fin 10),
                enum_d := Some [''2'', ''4''], multipleOf_d := Some (Fin 2)\<rparr>)"
  let ?col = "Property ''colour'' ((only_type ''string'')\<lparr>enum_d := Some [''red'', ''green'']\<rparr>)"
  note order = setValue_check_order [where rt = rt and dev = ?dev]
  show "fst (setValue rt (Num (Fin 3))
            (Property ''level'' ((only_type ''integer'')
               \<lparr>minimum_d := Some (Fin 0), maximum_d := Some (Fin 10),
                enum_d := Some [''2'', ''4''], readOnly_d := Some True,
                multipleOf_d := Some (Fin 2)\<rparr>), ?dev))
       = Inl ''Read-only property''"
    using order [where p = "Property ''level'' ((only_type ''integer'')
               \<lparr>minimum_d := Some (Fin 0), maximum_d := Some (Fin 10),
                enum_d := Some [''2'', ''4''], readOnly_d := Some True,
                multipleOf_d := Some (Fin 2)\<rparr>)" and v = "Num (Fin 3)"
              and mn = "Some (Fin 0)" and mx = "Some (Fin 10)" and k = "Some (Fin 2)"
              and en = "Some [''2'', ''4'']", THEN conjunct1]
    by (simp add: Property_def only_type_def)
  show "fst (setValue rt (Num (Fin (- 3))) (?lvl, ?dev))
       = Inl (''Value less than minimum: '' @ NumberToString rt (Fin 0))"
    using order [where p = ?lvl and v = "Num (Fin (- 3))" and m = "Fin 0"
              and mx = "Some (Fin 10)" and k = "Some (Fin 2)"
              and en = "Some [''2'', ''4'']", THEN conjunct2, THEN conjunct1]
    by (simp add: Property_def only_type_def del: append.simps)
  show "fst (setValue rt (Num (Fin 15)) (?lvl, ?dev))
       = Inl (''Value greater than maximum: '' @ NumberToString rt (Fin 10))"
    using order [where p = ?lvl and v = "Num (Fin 15)" and m = "Fin 10"
              and k = "Some (Fin 2)"
              and en = "Some [''2'', ''4'']", THEN conjunct2, THEN conjunct2, THEN conjunct1]
    by (simp add: Property_def only_type_def del: append.simps)
  show "fst (setValue rt (Num (Fin 3)) (?lvl, ?dev))
       = Inl (''Value is not a multiple of: '' @ NumberToString rt (Fin 2))"
    using order [where p = ?lvl and v = "Num (Fin 3)" and m = "Fin 2"
              and en = "Some [''2'', ''4'']",
              THEN conjunct2, THEN conjunct2, THEN conjunct2, THEN conjunct1]
      three_halves_not_multiple
    by (simp add: Property_def only_type_def del: append.simps num_div.simps num_sub.simps Math_round.simps)
  show "fst (setValue rt (Str ''purple'') (?col, ?dev)) = Inl ''Invalid enum value''"
    using order [where p = ?col and v = "Str ''purple''",
              THEN conjunct2, THEN conjunct2, THEN conjunct2, THEN conjunct2, THEN conjunct1]
    by (simp add: Property_def only_type_def)
  show "fst (setValue rt (Str ''green'') (?col, ?dev)) = Inr (Str ''green'')"
    using order [where p = ?col and v = "Str ''green''",
              THEN conjunct2, THEN conjunct2, THEN conjunct2, THEN conjunct2, THEN conjunct1]
    by (simp add: Property_def only_type_def setCachedValue_def)
  show "fst (setValue rt (Str ''green'')
            (Property ''colour'' ((only_type ''string'')\<lparr>enum_d := Some []\<rparr>), ?dev))
       = Inr (Str ''green'')"
    using order [where p = "Property ''colour'' ((only_type ''string'')\<lparr>enum_d := Some []\<rparr>)"
              and v = "Str ''green''",
              THEN conjunct2, THEN conjunct2, THEN conjunct2, THEN conjunct2, THEN conjunct1]
    by (simp add: Property_def only_type_def setCachedValue_def)
  show "fst (setValue rt (Str ''green'')
            ((Property ''colour'' (only_type ''string''))\<lparr>enum := Some [''red'', ''green'']\<rparr>, ?dev))
       = fst (setValue rt (Str ''green'')
            ((Property ''colour'' (only_type ''string''))\<lparr>enum := Some [''green'', ''red'']\<rparr>, ?dev))"
    using order [where p = "Property ''colour'' (only_type ''string'')" and v = "Str ''green''"
              and ?e1.0 = "[''red'', ''green'']" and ?e2.0 = "[''green'', ''red'']",
              THEN conjunct2, THEN conjunct2, THEN conjunct2, THEN conjunct2, THEN conjunct2]
    by (simp add: insert_commute)
qed

section \<open>The rejection reasons\<close>

text \<open>
  C9. Every rejection reason of \<open>setValue\<close> is a string that identifies the constraint
  that failed: the five reasons are pairwise different. The minimum, maximum and
  multiple-of reasons end with the rendering of the bound that was violated; the read-only
  and the enum reason are the fixed strings \<open>Read-only property\<close> and
  \<open>Invalid enum value\<close>.
\<close>

theorem setValue_reason_strings:
  "(fst (setValue rt v (p, dev)) = Inl e \<longrightarrow>
      e = ''Read-only property'' \<and> readOnly p = Some True
      \<or> (\<exists>m. e = ''Value less than minimum: '' @ NumberToString rt m \<and> minimum p = Some m)
      \<or> (\<exists>m. e = ''Value greater than maximum: '' @ NumberToString rt m \<and> maximum p = Some m)
      \<or> (\<exists>k. e = ''Value is not a multiple of: '' @ NumberToString rt k
              \<and> multipleOf p = Some k)
      \<or> e = ''Invalid enum value'')
   \<and> distinct [ ''Read-only property'', ''Value less than minimum: '' @ a,
                ''Value greater than maximum: '' @ b, ''Value is not a multiple of: '' @ c,
                ''Invalid enum value'' ]"
proof (intro conjI impI)
  assume "fst (setValue rt v (p, dev)) = Inl e"
  from setValue_reasons [OF this]
  show "e = ''Read-only property'' \<and> readOnly p = Some True
      \<or> (\<exists>m. e = ''Value less than minimum: '' @ NumberToString rt m \<and> minimum p = Some m)
      \<or> (\<exists>m. e = ''Value greater than maximum: '' @ NumberToString rt m \<and> maximum p = Some m)
      \<or> (\<exists>k. e = ''Value is not a multiple of: '' @ NumberToString rt k
              \<and> multipleOf p = Some k)
      \<or> e = ''Invalid enum value''"
    by blast
next
  show "distinct [ ''Read-only property'', ''Value less than minimum: '' @ a,
                ''Value greater than maximum: '' @ b, ''Value is not a multiple of: '' @ c,
                ''Invalid enum value'' ]"
    by simp
qed

theorem setValue_reason_strings_witness:
  "\<forall>rt. fst (setValue rt (Num (Fin 15))
          (Property ''level'' ((only_type ''number'')\<lparr>maximum_d := Some (Fin 10)\<rparr>),
           \<lparr>propertyChanged = [], actionNotified = []\<rparr>))
        = Inl (''Value greater than maximum: '' @ NumberToString rt (Fin 10))
      \<and> suffix (NumberToString rt (Fin 10))
          (''Value greater than maximum: '' @ NumberToString rt (Fin 10))
      \<and> (\<exists>m. ''Value greater than maximum: '' @ NumberToString rt (Fin 10)
                = ''Value greater than maximum: '' @ NumberToString rt m
              \<and> maximum (Property ''level'' ((only_type ''number'')\<lparr>maximum_d := Some (Fin 10)\<rparr>))
                = Some m)"
proof (intro allI conjI)
  fix rt
  let ?p = "Property ''level'' ((only_type ''number'')\<lparr>maximum_d := Some (Fin 10)\<rparr>)"
  show h: "fst (setValue rt (Num (Fin 15)) (?p, \<lparr>propertyChanged = [], actionNotified = []\<rparr>))
        = Inl (''Value greater than maximum: '' @ NumberToString rt (Fin 10))"
    by (simp add: setValue_def Property_def only_type_def)
  show "suffix (NumberToString rt (Fin 10))
          (''Value greater than maximum: '' @ NumberToString rt (Fin 10))"
    by (rule suffix_appendI) simp
  from setValue_reason_strings [where rt = rt and v = "Num (Fin 15)" and p = ?p
      and dev = "\<lparr>propertyChanged = [], actionNotified = []\<rparr>", THEN conjunct1, rule_format, OF h]
  show "\<exists>m. ''Value greater than maximum: '' @ NumberToString rt (Fin 10)
                = ''Value greater than maximum: '' @ NumberToString rt m
              \<and> maximum ?p = Some m"
    by (simp add: Property_def only_type_def)
qed

text \<open>
  The enum reason names neither the value that was refused nor a member of the enum:
  \<open>setValue('purple')\<close> on a string property whose enum is \<open>['red', 'green']\<close>.
\<close>

theorem setValue_enum_reason_counterexample:
  "\<forall>rt. fst (setValue rt (Str ''purple'')
          (Property ''colour'' ((only_type ''string'')\<lparr>enum_d := Some [''red'', ''green'']\<rparr>),
           \<lparr>propertyChanged = [], actionNotified = []\<rparr>)) = Inl ''Invalid enum value''
        \<and> \<not> sublist ''purple'' ''Invalid enum value''
        \<and> \<not> sublist ''red'' ''Invalid enum value''
        \<and> \<not> sublist ''green'' ''Invalid enum value''"
proof (intro allI conjI)
  fix rt
  show "fst (setValue rt (Str ''purple'')
          (Property ''colour'' ((only_type ''string'')\<lparr>enum_d := Some [''red'', ''green'']\<rparr>),
           \<lparr>propertyChanged = [], actionNotified = []\<rparr>)) = Inl ''Invalid enum value''"
    by (simp add: setValue_def Property_def only_type_def)
  show "\<not> sublist ''purple'' ''Invalid enum value''"
    using set_mono_sublist [of "''purple''" "''Invalid enum value''"] by auto
  show "\<not> sublist ''red'' ''Invalid enum value''"
    using set_mono_sublist [of "''red''" "''Invalid enum value''"] by auto
  show "\<not> sublist ''green'' ''Invalid enum value''"
    using set_mono_sublist [of "''green''" "''Invalid enum value''"] by auto
qed

section \<open>Reading the value\<close>

text \<open>
  C10. \<open>getValue\<close> never rejects: it resolves to the cached value, and changes no field
  of the property but \<open>prevGetValue\<close>, which afterwards is the cached value unless the
  two were loosely equal (\<open>==\<close>) before the read, in which case it is left as it was.
\<close>

theorem getValue_frame:
  "fst (getValue rt p) = Inr (value p)
   \<and> (snd (getValue rt p))\<lparr>prevGetValue := prevGetValue p\<rparr> = p
   \<and> prevGetValue (snd (getValue rt p)) =
       (if loose_eq rt (value p) (prevGetValue p) then prevGetValue p else value p)"
  by (simp add: getValue_def)

text \<open>
  After \<open>setCachedValue(null)\<close> on a fresh property a read leaves \<open>prevGetValue\<close>
  undefined, since \<open>null == undefined\<close>; and after a read of a cached NaN
  \<open>prevGetValue\<close> is NaN, which no JavaScript equality relates to the cached value.
\<close>

theorem getValue_prevGetValue_counterexample:
  "\<forall>rt. (let p = snd (setCachedValue Null (Property ''level'' (only_type ''number'')))
         in value p = Null \<and> prevGetValue (snd (getValue rt p)) = Undefined)
      \<and> (let p = snd (getValue rt (snd (setCachedValue (Num NaN)
                      (Property ''level'' (only_type ''number'')))))
         in value p = Num NaN \<and> prevGetValue p = Num NaN
            \<and> \<not> loose_eq rt (prevGetValue p) (value p)
            \<and> \<not> strict_eq (prevGetValue p) (value p))"
  by (simp add: getValue_def setCachedValue_def Property_def only_type_def loose_eq_def
      num_eq_def)

section \<open>The descriptions\<close>

text \<open>
  C5. \<open>asPropertyDescription\<close> returns a dense object: the eleven keys \<open>title\<close>,
  \<open>type\<close>, \<open>@type\<close>, \<open>unit\<close>, \<open>description\<close>, \<open>minimum\<close>, \<open>maximum\<close>,
  \<open>enum\<close>, \<open>readOnly\<close>, \<open>multipleOf\<close> and \<open>links\<close> are always present. An
  optional field that is undefined on the property is there with the value
  \<open>undefined\<close>, not \<open>null\<close>; \<open>type\<close> and \<open>links\<close> always carry a value.
\<close>

theorem asPropertyDescription_dense:
  "map fst (asPropertyDescription p)
     = [ ''title'', ''type'', ''@type'', ''unit'', ''description'', ''minimum'', ''maximum'',
         ''enum'', ''readOnly'', ''multipleOf'', ''links'' ]
   \<and> map_of (asPropertyDescription p) ''type'' = Some (DString (type p))
   \<and> map_of (asPropertyDescription p) ''links'' = Some (DLinks (links p))
   \<and> map_of (asPropertyDescription p) ''title'' =
        Some (case title p of None \<Rightarrow> DUndefined | Some s \<Rightarrow> DString s)
   \<and> map_of (asPropertyDescription p) ''@type'' =
        Some (case atType p of None \<Rightarrow> DUndefined | Some s \<Rightarrow> DString s)
   \<and> map_of (asPropertyDescription p) ''unit'' =
        Some (case unit p of None \<Rightarrow> DUndefined | Some s \<Rightarrow> DString s)
   \<and> map_of (asPropertyDescription p) ''description'' =
        Some (case description p of None \<Rightarrow> DUndefined | Some s \<Rightarrow> DString s)
   \<and> map_of (asPropertyDescription p) ''minimum'' =
        Some (case minimum p of None \<Rightarrow> DUndefined | Some n \<Rightarrow> DNumber n)
   \<and> map_of (asPropertyDescription p) ''maximum'' =
        Some (case maximum p of None \<Rightarrow> DUndefined | Some n \<Rightarrow> DNumber n)
   \<and> map_of (asPropertyDescription p) ''enum'' =
        Some (case enum p of None \<Rightarrow> DUndefined | Some e \<Rightarrow> DStrings e)
   \<and> map_of (asPropertyDescription p) ''readOnly'' =
        Some (case readOnly p of None \<Rightarrow> DUndefined | Some b \<Rightarrow> DBoolean b)
   \<and> map_of (asPropertyDescription p) ''multipleOf'' =
        Some (case multipleOf p of None \<Rightarrow> DUndefined | Some n \<Rightarrow> DNumber n)"
  by (simp add: asPropertyDescription_def split: option.split)

text \<open>
  The description of a property constructed from \<open>{type: 'number'}\<close> has nine keys
  whose value is undefined.
\<close>

theorem asPropertyDescription_sparse_counterexample:
  "asPropertyDescription (Property ''level'' (only_type ''number''))
     = [ (''title'', DUndefined), (''type'', DString ''number''), (''@type'', DUndefined),
         (''unit'', DUndefined), (''description'', DUndefined), (''minimum'', DUndefined),
         (''maximum'', DUndefined), (''enum'', DUndefined), (''readOnly'', DUndefined),
         (''multipleOf'', DUndefined), (''links'', DLinks []) ]"
  by (simp add: asPropertyDescription_def Property_def only_type_def)

text \<open>
  C4. The description of a fresh action constructed with the input \<open>null\<close>, on which
  \<open>finish()\<close> has not been called: \<open>name\<close>, \<open>timeRequested\<close> and \<open>status\<close> are
  there and \<open>input\<close> is left out, but \<open>timeCompleted\<close> is there with the value
  \<open>undefined\<close>, the guard \<open>!== null\<close> being true of it.
\<close>

theorem asActionDescription_fresh:
  "asActionDescription (Action c ''1'' ''fade'' Null)
     = [ (''name'', Str ''fade''), (''timeRequested'', Str (timestamp c)),
         (''status'', Str ''created''), (''timeCompleted'', Undefined) ]"
  by (simp add: asActionDescription_def Action_def)

section \<open>The life of an action\<close>

text \<open>
  C8. A fresh action has the status \<open>created\<close>, its \<open>timeRequested\<close> set and its
  \<open>timeCompleted\<close> undefined. \<open>start\<close> sets the status to \<open>pending\<close> and
  \<open>finish\<close> sets it to \<open>completed\<close> and \<open>timeCompleted\<close> to the timestamp of the
  moment; each tells the device once, with the updated action, and neither has a failing
  branch. In a run of \<open>start\<close> and \<open>finish\<close>, whatever time passes between the
  steps, the device is told exactly twice and \<open>timeCompleted\<close> is a reading of the clock
  not before that of \<open>timeRequested\<close>.
\<close>

theorem action_lifecycle:
  "status (Action c i n inp) = ''created''
   \<and> timeRequested (Action c i n inp) = timestamp c
   \<and> timeCompleted (Action c i n inp) = Undefined
   \<and> start (a, dev) = (a\<lparr>status := ''pending''\<rparr>,
        dev\<lparr>actionNotified := actionNotified dev @ [a\<lparr>status := ''pending''\<rparr>]\<rparr>)
   \<and> finish c' (a, dev) =
        (a\<lparr>status := ''completed'', timeCompleted := Str (timestamp c')\<rparr>,
         dev\<lparr>actionNotified := actionNotified dev @
               [a\<lparr>status := ''completed'', timeCompleted := Str (timestamp c')\<rparr>]\<rparr>)
   \<and> (let a0 = Action c i n inp;
           s1 = start (a0, dev);
           s2 = finish (elapse d2 (elapse d1 c)) s1
       in status (fst s1) = ''pending'' \<and> status (fst s2) = ''completed''
          \<and> timeRequested (fst s2) = render c (ticks c)
          \<and> timeCompleted (fst s2) = Str (render c (ticks c + d1 + d2))
          \<and> ticks c \<le> ticks c + d1 + d2
          \<and> actionNotified (snd s2) = actionNotified dev @ [fst s1, fst s2]
          \<and> propertyChanged (snd s2) = propertyChanged dev)"
  by (simp add: Action_def start_def finish_def actionNotify_def timestamp_def elapse_def
      Let_def)

end
